theory Spec2Isabelle
  imports Complex_Main "HOL-Library.AList"
begin

section \<open>Values read from JSON, and the Python operations applied to them\<close>

text \<open>
  \<open>json.load\<close> hands the constructors of \<open>taskdb.py\<close> untyped Python values: \<open>None\<close>,
  booleans, numbers, strings, lists and dicts. A dict is an association list in insertion
  order; its keys are pairwise distinct (as those of a Python dict are), so looking a key
  up with \<open>map_of\<close> is unambiguous. Floats are never computed with, only passed through
  and tested against zero, so a rational stands for them.
\<close>

datatype json =
    JNull
  | JBool bool
  | JInt int
  | JFloat rat
  | JStr string
  | JArr "json list"
  | JObj "(string \<times> json) list"

datatype error = KeyError string | TypeError | IndexError | ZeroDivisionError

text \<open>Python truthiness, as tested by \<open>if x:\<close>.\<close>

fun truthy :: "json \<Rightarrow> bool" where
  "truthy JNull = False"
| "truthy (JBool b) = b"
| "truthy (JInt i) = (i \<noteq> 0)"
| "truthy (JFloat r) = (r \<noteq> 0)"
| "truthy (JStr s) = (s \<noteq> [])"
| "truthy (JArr xs) = (xs \<noteq> [])"
| "truthy (JObj kvs) = (kvs \<noteq> [])"

fun starts_with :: "string \<Rightarrow> string \<Rightarrow> bool" where
  "starts_with [] s = True"
| "starts_with (c # cs) [] = False"
| "starts_with (c # cs) (x # xs) = (c = x \<and> starts_with cs xs)"

fun substring :: "string \<Rightarrow> string \<Rightarrow> bool" where
  "substring k [] = (k = [])"
| "substring k (x # xs) = (starts_with k (x # xs) \<or> substring k xs)"

text \<open>
  \<open>k in d\<close> for a string \<open>k\<close>: key membership in a dict, element membership in a list,
  substring test in a string, and a \<open>TypeError\<close> for anything else.
\<close>

fun py_in :: "string \<Rightarrow> json \<Rightarrow> error + bool" where
  "py_in k (JObj kvs) = Inr (map_of kvs k \<noteq> None)"
| "py_in k (JArr xs) = Inr (JStr k \<in> set xs)"
| "py_in k (JStr s) = Inr (substring k s)"
| "py_in k _ = Inl TypeError"

text \<open>
  \<open>d[k]\<close> for a string \<open>k\<close>: the value of a dict, \<open>KeyError\<close> when the key is missing,
  and a \<open>TypeError\<close> for every other value (lists and strings take integer indices, the
  rest is not subscriptable).
\<close>

fun py_get :: "json \<Rightarrow> string \<Rightarrow> error + json" where
  "py_get (JObj kvs) k = (case map_of kvs k of None \<Rightarrow> Inl (KeyError k) | Some v \<Rightarrow> Inr v)"
| "py_get _ k = Inl TypeError"

text \<open>
  \<open>for x in v\<close>: the elements of a list, the keys of a dict, the characters of a string,
  and a \<open>TypeError\<close> for anything else.
\<close>

fun py_iter :: "json \<Rightarrow> error + json list" where
  "py_iter (JArr xs) = Inr xs"
| "py_iter (JObj kvs) = Inr (map (\<lambda>kv. JStr (fst kv)) kvs)"
| "py_iter (JStr s) = Inr (map (\<lambda>c. JStr [c]) s)"
| "py_iter _ = Inl TypeError"

text \<open>The pattern \<open>x = dflt; if k in d: x = d[k]\<close>.\<close>

definition field_or :: "json \<Rightarrow> string \<Rightarrow> json \<Rightarrow> error + json" where
  "field_or d k dflt =
     (case py_in k d of
        Inl e \<Rightarrow> Inl e
      | Inr b \<Rightarrow> if b then py_get d k else Inr dflt)"

text \<open>
  The pattern \<open>if k in d: for x in d[k]: if x: ...\<close>: the entries the loop body is run on,
  in order. Falsy entries are skipped.
\<close>

definition opt_items :: "json \<Rightarrow> string \<Rightarrow> error + json list" where
  "opt_items d k =
     (case py_in k d of
        Inl e \<Rightarrow> Inl e
      | Inr b \<Rightarrow>
          if b then
            (case py_get d k of
               Inl e \<Rightarrow> Inl e
             | Inr v \<Rightarrow>
                 (case py_iter v of Inl e \<Rightarrow> Inl e | Inr xs \<Rightarrow> Inr (filter truthy xs)))
          else Inr [])"

text \<open>Running a constructor over the entries, stopping at the first one that raises.\<close>

fun map_err :: "('a \<Rightarrow> error + 'b) \<Rightarrow> 'a list \<Rightarrow> error + 'b list" where
  "map_err f [] = Inr []"
| "map_err f (x # xs) =
     (case f x of
        Inl e \<Rightarrow> Inl e
      | Inr y \<Rightarrow> (case map_err f xs of Inl e \<Rightarrow> Inl e | Inr ys \<Rightarrow> Inr (y # ys)))"

lemma map_err_cong [fundef_cong]:
  "xs = ys \<Longrightarrow> (\<And>x. x \<in> set ys \<Longrightarrow> f x = g x) \<Longrightarrow> map_err f xs = map_err g ys"
  by (induction ys arbitrary: xs) (auto split: sum.splits)

lemma size_map_of: "map_of kvs k = Some v \<Longrightarrow> size v < size (JObj kvs)"
  by (induction kvs) (auto split: if_splits)

lemma size_py_get: "py_get d k = Inr v \<Longrightarrow> size v < size d"
  by (cases d) (auto split: option.splits dest: size_map_of)

lemma size_py_iter: "py_iter v = Inr xs \<Longrightarrow> x \<in> set xs \<Longrightarrow> size x \<le> size v"
proof (cases v)
  case (JArr ys)
  assume "py_iter v = Inr xs" "x \<in> set xs"
  with JArr have "x \<in> set ys" by simp
  then have "size x \<le> size_list size ys"
    by (induction ys) auto
  with JArr show ?thesis by simp
qed auto

lemma size_opt_items [termination_simp]:
  assumes "opt_items d k = Inr xs" and "x \<in> set xs"
  shows "size x < size d"
proof -
  from assms obtain v ys where v: "py_get d k = Inr v" and ys: "py_iter v = Inr ys"
    and x: "x \<in> set ys"
    unfolding opt_items_def by (auto split: sum.splits if_splits)
  from size_py_iter [OF ys x] size_py_get [OF v] show ?thesis by simp
qed

section \<open>The entities of \<open>taskdb.py\<close>\<close>

datatype link = Link (link_title: json) (link_url: json)

datatype sota_row = SotaRow
  (sr_model_name: json)
  (sr_paper_title: json)
  (sr_paper_url: json)
  (sr_paper_date: json)
  (sr_code_links: "link list")
  (sr_model_links: "link list")
  (sr_metrics: json)

text \<open>
  The \<open>parent\<close> back-reference of a dataset or task is kept as the parent's name, \<open>None\<close>
  when there is no parent: the code only tests it for presence and reads the name through
  it.
\<close>

datatype dataset = Dataset
  (ds_dataset: json)
  (ds_description: json)
  (ds_parent: "json option")
  (ds_sota_metrics: json)
  (ds_sota_rows: "sota_row list")
  (ds_subdatasets: "dataset list")
  (ds_dataset_links: "link list")
  (ds_dataset_citations: "link list")

datatype task = Task
  (t_task: json)
  (t_description: json)
  (t_parent: "json option")
  (t_categories: json)
  (t_datasets: "dataset list")
  (t_subtasks: "task list")
  (t_synonyms: "string list")
  (t_source_link: "link option")

section \<open>Construction from records\<close>

text \<open>\<open>Link.__init__\<close>.\<close>

definition mk_link :: "json \<Rightarrow> error + link" where
  "mk_link d =
     (case field_or d ''title'' (JStr '''') of
        Inl e \<Rightarrow> Inl e
      | Inr title \<Rightarrow>
          (case field_or d ''url'' (JStr '''') of
             Inl e \<Rightarrow> Inl e
           | Inr url \<Rightarrow> Inr (Link title url)))"

text \<open>The pattern \<open>if k in d: for x in d[k]: if x: acc.append(Link(x))\<close>.\<close>

definition links_of :: "json \<Rightarrow> string \<Rightarrow> error + link list" where
  "links_of d k =
     (case opt_items d k of Inl e \<Rightarrow> Inl e | Inr xs \<Rightarrow> map_err mk_link xs)"

text \<open>
  \<open>SotaRow.__init__\<close>. The statements run in the order of the source, so the first one
  that raises decides the error: \<open>d["model_name"]\<close> comes first, \<open>d["metrics"]\<close> last.
\<close>

definition mk_sota_row :: "json \<Rightarrow> error + sota_row" where
  "mk_sota_row d =
     (case py_get d ''model_name'' of
        Inl e \<Rightarrow> Inl e
      | Inr model_name \<Rightarrow>
     (case field_or d ''paper_title'' (JStr '''') of
        Inl e \<Rightarrow> Inl e
      | Inr paper_title \<Rightarrow>
     (case field_or d ''paper_url'' (JStr '''') of
        Inl e \<Rightarrow> Inl e
      | Inr paper_url \<Rightarrow>
     (case field_or d ''paper_date'' JNull of
        Inl e \<Rightarrow> Inl e
      | Inr paper_date \<Rightarrow>
     (case links_of d ''code_links'' of
        Inl e \<Rightarrow> Inl e
      | Inr code_links \<Rightarrow>
     (case links_of d ''model_links'' of
        Inl e \<Rightarrow> Inl e
      | Inr model_links \<Rightarrow>
     (case py_get d ''metrics'' of
        Inl e \<Rightarrow> Inl e
      | Inr metrics \<Rightarrow>
          Inr (SotaRow model_name paper_title paper_url paper_date
                 code_links model_links metrics))))))))"

text \<open>The \<open>sota\<close> block of a dataset record: the tracked metrics and the rows.\<close>

definition sota_of :: "json \<Rightarrow> error + (json \<times> sota_row list)" where
  "sota_of d =
     (case py_in ''sota'' d of
        Inl e \<Rightarrow> Inl e
      | Inr b \<Rightarrow>
          if b then
            (case py_get d ''sota'' of
               Inl e \<Rightarrow> Inl e
             | Inr s \<Rightarrow>
            (case field_or s ''metrics'' (JArr []) of
               Inl e \<Rightarrow> Inl e
             | Inr metrics \<Rightarrow>
            (case opt_items s ''rows'' of
               Inl e \<Rightarrow> Inl e
             | Inr rs \<Rightarrow>
            (case map_err mk_sota_row rs of
               Inl e \<Rightarrow> Inl e
             | Inr rows \<Rightarrow> Inr (metrics, rows)))))
          else Inr (JArr [], []))"

text \<open>
  \<open>Dataset.__init__\<close>. The citations are appended to \<open>dataset_links\<close>; the field
  \<open>dataset_citations\<close> is assigned the empty list and never touched again.
\<close>

fun mk_dataset :: "json option \<Rightarrow> json \<Rightarrow> error + dataset" where
  "mk_dataset parent d =
     (case py_in ''subdataset'' d of
        Inl e \<Rightarrow> Inl e
      | Inr b \<Rightarrow>
     (case py_get d (if b then ''subdataset'' else ''dataset'') of
        Inl e \<Rightarrow> Inl e
      | Inr name \<Rightarrow>
     (case field_or d ''description'' (JStr '''') of
        Inl e \<Rightarrow> Inl e
      | Inr description \<Rightarrow>
     (case sota_of d of
        Inl e \<Rightarrow> Inl e
      | Inr sota \<Rightarrow>
     (case opt_items d ''subdatasets'' of
        Inl e \<Rightarrow> Inl e
      | Inr sds \<Rightarrow>
     (case map_err (mk_dataset (Some name)) sds of
        Inl e \<Rightarrow> Inl e
      | Inr subdatasets \<Rightarrow>
     (case links_of d ''dataset_links'' of
        Inl e \<Rightarrow> Inl e
      | Inr links \<Rightarrow>
     (case links_of d ''dataset_citations'' of
        Inl e \<Rightarrow> Inl e
      | Inr citations \<Rightarrow>
          Inr (Dataset name description parent (fst sota) (snd sota) subdatasets
                 (links @ citations) [])))))))))"

text \<open>\<open>Task.__init__\<close>.\<close>

definition source_link_of :: "json \<Rightarrow> error + link option" where
  "source_link_of d =
     (case py_in ''source_link'' d of
        Inl e \<Rightarrow> Inl e
      | Inr b \<Rightarrow>
          if b then
            (case py_get d ''source_link'' of
               Inl e \<Rightarrow> Inl e
             | Inr v \<Rightarrow> (case mk_link v of Inl e \<Rightarrow> Inl e | Inr l \<Rightarrow> Inr (Some l)))
          else Inr None)"

fun mk_task :: "json option \<Rightarrow> json \<Rightarrow> error + task" where
  "mk_task parent d =
     (case py_get d ''task'' of
        Inl e \<Rightarrow> Inl e
      | Inr name \<Rightarrow>
     (case field_or d ''description'' (JStr '''') of
        Inl e \<Rightarrow> Inl e
      | Inr description \<Rightarrow>
     (case field_or d ''categories'' (JArr []) of
        Inl e \<Rightarrow> Inl e
      | Inr categories \<Rightarrow>
     (case opt_items d ''datasets'' of
        Inl e \<Rightarrow> Inl e
      | Inr dds \<Rightarrow>
     (case map_err (mk_dataset None) dds of
        Inl e \<Rightarrow> Inl e
      | Inr datasets \<Rightarrow>
     (case opt_items d ''subtasks'' of
        Inl e \<Rightarrow> Inl e
      | Inr sts \<Rightarrow>
     (case map_err (mk_task (Some name)) sts of
        Inl e \<Rightarrow> Inl e
      | Inr subtasks \<Rightarrow>
     (case source_link_of d of
        Inl e \<Rightarrow> Inl e
      | Inr source_link \<Rightarrow>
          Inr (Task name description parent categories datasets subtasks []
                 source_link)))))))))"

declare mk_dataset.simps [simp del] mk_task.simps [simp del]

section \<open>Serialization\<close>

text \<open>Each \<open>to_dict\<close> builds a dict; the keys are listed in the order they are inserted.\<close>

definition link_to_dict :: "link \<Rightarrow> json" where
  "link_to_dict l = JObj [(''title'', link_title l), (''url'', link_url l)]"

definition sota_row_to_dict :: "sota_row \<Rightarrow> json" where
  "sota_row_to_dict r = JObj
     [(''model_name'', sr_model_name r),
      (''paper_title'', sr_paper_title r),
      (''paper_url'', sr_paper_url r),
      (''paper_date'', sr_paper_date r),
      (''code_links'', JArr (map link_to_dict (sr_code_links r))),
      (''model_links'', JArr (map link_to_dict (sr_model_links r))),
      (''metrics'', sr_metrics r)]"

text \<open>
  \<open>Dataset.to_dict\<close>. \<open>if self.parent\<close> holds exactly when there is a parent (an object
  without \<open>__bool__\<close> and \<open>__len__\<close> is truthy).
\<close>

fun dataset_to_dict :: "dataset \<Rightarrow> json" where
  "dataset_to_dict (Dataset name description parent sota_metrics sota_rows subdatasets
       dataset_links dataset_citations) = JObj
     ([(if parent \<noteq> None then ''subdataset'' else ''dataset'', name),
       (''description'', description)]
      @ (if truthy sota_metrics
         then [(''sota'', JObj [(''metrics'', sota_metrics),
                                (''rows'', JArr (map sota_row_to_dict sota_rows))])]
         else [])
      @ (if subdatasets \<noteq> []
         then [(''subdatasets'', JArr (map dataset_to_dict subdatasets))]
         else [])
      @ [(''dataset_links'', JArr (map link_to_dict dataset_links)),
         (''dataset_citations'', JArr (map link_to_dict dataset_citations))])"

fun task_to_dict :: "task \<Rightarrow> json" where
  "task_to_dict (Task name description parent categories datasets subtasks synonyms
       source_link) = JObj
     [(''task'', name),
      (''description'', description),
      (''categories'', categories),
      (''datasets'', JArr (map dataset_to_dict datasets)),
      (''subtasks'', JArr (map task_to_dict subtasks)),
      (''synonyms'', JArr (map JStr synonyms)),
      (''source_link'', case source_link of None \<Rightarrow> JNull | Some l \<Rightarrow> link_to_dict l)]"

section \<open>The registry \<open>TaskDb\<close>\<close>

text \<open>
  \<open>TaskDb.tasks\<close> is a dict from names to top-level tasks, passed explicitly here. A dict
  iterates in insertion order, and assigning to a key that is present keeps its position:
  this is \<open>AList.update\<close>.
\<close>

type_synonym taskdb = "(string \<times> task) list"

definition add_task :: "string \<Rightarrow> task \<Rightarrow> taskdb \<Rightarrow> taskdb" where
  "add_task name t tasks = AList.update name t tasks"

text \<open>The inner loop of \<open>get_task\<close>: \<open>for subtask in t.subtasks\<close>.\<close>

fun find_subtask :: "task list \<Rightarrow> string \<Rightarrow> task option" where
  "find_subtask [] name = None"
| "find_subtask (subtask # rest) name =
     (if t_task subtask = JStr name then Some subtask else find_subtask rest name)"

text \<open>The outer loop: \<open>for t in TaskDb.tasks.values()\<close>.\<close>

fun scan_tasks :: "task list \<Rightarrow> string \<Rightarrow> task option" where
  "scan_tasks [] name = None"
| "scan_tasks (t # rest) name =
     (case find_subtask (t_subtasks t) name of
        Some subtask \<Rightarrow> Some subtask
      | None \<Rightarrow> scan_tasks rest name)"

definition get_task :: "taskdb \<Rightarrow> string \<Rightarrow> task option" where
  "get_task tasks name =
     (case map_of tasks name of
        Some t \<Rightarrow> Some t
      | None \<Rightarrow> scan_tasks (map snd tasks) name)"

definition export :: "taskdb \<Rightarrow> json list" where
  "export tasks = map (\<lambda>kv. task_to_dict (snd kv)) tasks"

subsection \<open>Discovery of SOTA tables\<close>

text \<open>
  The body that \<open>find_sota_tasks\<close> and \<open>find_sota_datasets\<close> share: one pass of
  \<open>for d in task.datasets\<close> over the dataset \<open>d\<close>, from the current value of the flag
  \<open>add\<close> to its next value.
\<close>

definition scan_sota :: "dataset \<Rightarrow> bool \<Rightarrow> bool" where
  "scan_sota d add =
     fold (\<lambda>sd a. if ds_sota_rows sd \<noteq> [] then True else a) (ds_subdatasets d)
       (if ds_sota_rows d \<noteq> [] then True else add)"

fun find_sota_tasks :: "task \<Rightarrow> task list \<Rightarrow> task list" where
  "find_sota_tasks (Task name description parent categories datasets subtasks synonyms
       source_link) out =
     fold find_sota_tasks subtasks
       (if fold scan_sota datasets False
        then out @ [Task name description parent categories datasets subtasks synonyms
                      source_link]
        else out)"

text \<open>
  In \<open>find_sota_datasets\<close> the flag is set to \<open>False\<close> once, before the loop over the
  datasets, and the test \<open>if add: out.append(d)\<close> is inside that loop.
\<close>

definition dataset_step :: "dataset \<Rightarrow> bool \<times> dataset list \<Rightarrow> bool \<times> dataset list" where
  "dataset_step d st =
     (let add = scan_sota d (fst st)
      in (add, if add then snd st @ [d] else snd st))"

fun find_sota_datasets :: "task \<Rightarrow> dataset list \<Rightarrow> dataset list" where
  "find_sota_datasets (Task name description parent categories datasets subtasks synonyms
       source_link) out =
     fold find_sota_datasets subtasks (snd (fold dataset_step datasets (False, out)))"

definition tasks_with_sota :: "taskdb \<Rightarrow> task list" where
  "tasks_with_sota tasks = fold find_sota_tasks (map snd tasks) []"

definition datasets_with_sota :: "taskdb \<Rightarrow> dataset list" where
  "datasets_with_sota tasks = fold find_sota_datasets (map snd tasks) []"

subsection \<open>Synonyms\<close>

text \<open>
  \<open>task.synonyms.append(row[1])\<close> changes the task that \<open>get_task\<close> returned, in place in
  the registry. With the registry a value, the change is written back at the place where
  \<open>get_task\<close> finds the task: the entry of the name, or else the first direct subtask of
  that name. (Every task object is taken to occur once in the registry, as it does after
  \<open>load_tasks\<close>.)
\<close>

fun append_synonym :: "string \<Rightarrow> task \<Rightarrow> task" where
  "append_synonym s (Task name description parent categories datasets subtasks synonyms
       source_link) =
     Task name description parent categories datasets subtasks (synonyms @ [s]) source_link"

fun set_subtasks :: "task list \<Rightarrow> task \<Rightarrow> task" where
  "set_subtasks sts (Task name description parent categories datasets subtasks synonyms
       source_link) =
     Task name description parent categories datasets sts synonyms source_link"

fun update_subtask :: "string \<Rightarrow> (task \<Rightarrow> task) \<Rightarrow> task list \<Rightarrow> task list option" where
  "update_subtask name f [] = None"
| "update_subtask name f (subtask # rest) =
     (if t_task subtask = JStr name then Some (f subtask # rest)
      else (case update_subtask name f rest of
              None \<Rightarrow> None
            | Some rest' \<Rightarrow> Some (subtask # rest')))"

fun update_scan :: "string \<Rightarrow> (task \<Rightarrow> task) \<Rightarrow> taskdb \<Rightarrow> taskdb" where
  "update_scan name f [] = []"
| "update_scan name f (kv # rest) =
     (case update_subtask name f (t_subtasks (snd kv)) of
        Some sts \<Rightarrow> (fst kv, set_subtasks sts (snd kv)) # rest
      | None \<Rightarrow> kv # update_scan name f rest)"

definition update_task :: "string \<Rightarrow> (task \<Rightarrow> task) \<Rightarrow> taskdb \<Rightarrow> taskdb" where
  "update_task name f tasks =
     (if map_of tasks name \<noteq> None then AList.map_entry name f tasks
      else update_scan name f tasks)"

text \<open>
  The body of \<open>for row in reader\<close>. A row is the list of its fields; \<open>csv.reader\<close> yields
  the empty list for a blank line. \<open>row[0]\<close> and \<open>row[1]\<close> raise \<open>IndexError\<close> out of
  range.
\<close>

fun load_row :: "taskdb \<Rightarrow> string list \<Rightarrow> error + taskdb" where
  "load_row tasks [] = Inl IndexError"
| "load_row tasks (name # fields) =
     (case get_task tasks name of
        None \<Rightarrow> Inr tasks
      | Some t \<Rightarrow>
          (case fields of
             [] \<Rightarrow> Inl IndexError
           | synonym # _ \<Rightarrow> Inr (update_task name (append_synonym synonym) tasks)))"

fun load_rows :: "taskdb \<Rightarrow> string list list \<Rightarrow> error + taskdb" where
  "load_rows tasks [] = Inr tasks"
| "load_rows tasks (row # rows) =
     (case load_row tasks row of
        Inl e \<Rightarrow> Inl e
      | Inr tasks' \<Rightarrow> load_rows tasks' rows)"

text \<open>\<open>load_synonyms\<close> over the parsed files, each the list of its rows.\<close>

fun load_synonyms :: "taskdb \<Rightarrow> string list list list \<Rightarrow> error + taskdb" where
  "load_synonyms tasks [] = Inr tasks"
| "load_synonyms tasks (csv_file # csv_files) =
     (case load_rows tasks csv_file of
        Inl e \<Rightarrow> Inl e
      | Inr tasks' \<Rightarrow> load_synonyms tasks' csv_files)"

section \<open>Precision and recall in \<open>eval_all.py\<close>\<close>

text \<open>
  \<open>a / b\<close> on integers is true division: it raises \<open>ZeroDivisionError\<close> when \<open>b\<close> is zero.
  The rounding of the float result is left out; the quotient of two naturals is zero
  exactly when the numerator is, as it is for the floats of list lengths.
\<close>

definition py_truediv :: "nat \<Rightarrow> nat \<Rightarrow> error + rat" where
  "py_truediv a b = (if b = 0 then Inl ZeroDivisionError else Inr (of_nat a / of_nat b))"

text \<open>
  Lines 18 to 23 of the loop body, on the sizes of \<open>tp\<close>, \<open>fn\<close> and \<open>fp\<close>: the guard of the
  precision tests the denominator, the guard of the recall tests the quotient.
\<close>

definition precision_recall :: "nat \<Rightarrow> nat \<Rightarrow> nat \<Rightarrow> error + (rat \<times> rat)" where
  "precision_recall tp fn fp =
     (case (if tp + fp \<noteq> 0 then py_truediv tp (tp + fp) else Inr 0) of
        Inl e \<Rightarrow> Inl e
      | Inr prec \<Rightarrow>
     (case py_truediv tp (tp + fn) of
        Inl e \<Rightarrow> Inl e
      | Inr q \<Rightarrow>
     (case (if q \<noteq> 0 then py_truediv tp (tp + fn) else Inr 0) of
        Inl e \<Rightarrow> Inl e
      | Inr recal \<Rightarrow> Inr (prec, recal))))"

section \<open>What the specification says the queries return\<close>

text \<open>
  The per-dataset check in the words of the specification: the dataset's own rows, or the
  rows of one of its direct subdatasets, are non-empty.
\<close>

definition dataset_has_sota :: "dataset \<Rightarrow> bool" where
  "dataset_has_sota d =
     (ds_sota_rows d \<noteq> [] \<or> (\<exists>sd \<in> set (ds_subdatasets d). ds_sota_rows sd \<noteq> []))"

text \<open>A task qualifies when one of the datasets it owns directly passes that check.\<close>

definition task_has_sota :: "task \<Rightarrow> bool" where
  "task_has_sota t = (\<exists>d \<in> set (t_datasets t). dataset_has_sota d)"

text \<open>A task followed by its descendants, each before its own subtasks.\<close>

fun preorder :: "task \<Rightarrow> task list" where
  "preorder (Task name description parent categories datasets subtasks synonyms source_link) =
     Task name description parent categories datasets subtasks synonyms source_link
       # concat (map preorder subtasks)"

text \<open>The subtasks exactly one level below the top-level tasks, in registry order.\<close>

definition direct_subtasks :: "taskdb \<Rightarrow> task list" where
  "direct_subtasks tasks = concat (map (\<lambda>kv. t_subtasks (snd kv)) tasks)"

text \<open>The value of an optional field of a record: the one given, or else the default.\<close>

definition get_or :: "(string \<times> json) list \<Rightarrow> string \<Rightarrow> json \<Rightarrow> json" where
  "get_or kvs k dflt = (case map_of kvs k of None \<Rightarrow> dflt | Some v \<Rightarrow> v)"

text \<open>
  A row of a synonym file with fewer than two fields that reaches the out-of-range read:
  the empty row, or a single field that names a task \<open>get_task\<close> finds.
\<close>

definition short_row :: "taskdb \<Rightarrow> string list \<Rightarrow> bool" where
  "short_row tasks row =
     (case row of [] \<Rightarrow> True | [n] \<Rightarrow> get_task tasks n \<noteq> None | _ \<Rightarrow> False)"

section \<open>Example records and registries\<close>

definition example_row :: sota_row where
  "example_row = SotaRow (JStr ''ResNet'') (JStr '''') (JStr '''') JNull [] []
     (JObj [(''Accuracy'', JStr ''93.1'')])"

definition example_dataset :: dataset where
  "example_dataset = Dataset (JStr ''CIFAR-10'') (JStr '''') None (JArr [JStr ''Accuracy''])
     [example_row] [] [] []"

definition empty_dataset :: dataset where
  "empty_dataset = Dataset (JStr ''SVHN'') (JStr '''') None (JArr []) [] [] [] []"

definition rows_without_metrics :: dataset where
  "rows_without_metrics = Dataset (JStr ''MNIST'') (JStr '''') None (JArr []) [example_row] []
     [] []"

text \<open>
  The registry of the scenario: \<open>A\<close> without datasets, \<open>B\<close> with one dataset of one row,
  \<open>C\<close> with the subtask \<open>D\<close> that has such a dataset.
\<close>

definition task_A :: task where
  "task_A = Task (JStr ''A'') (JStr '''') None (JArr []) [] [] [] None"

definition task_B :: task where
  "task_B = Task (JStr ''B'') (JStr '''') None (JArr []) [example_dataset] [] [] None"

definition task_D :: task where
  "task_D = Task (JStr ''D'') (JStr '''') (Some (JStr ''C'')) (JArr []) [example_dataset] [] []
     None"

definition task_C :: task where
  "task_C = Task (JStr ''C'') (JStr '''') None (JArr []) [] [task_D] [] None"

definition scenario_db :: taskdb where
  "scenario_db = [(''A'', task_A), (''B'', task_B), (''C'', task_C)]"

text \<open>A task whose first dataset has a row and whose second has none.\<close>

definition task_E :: task where
  "task_E = Task (JStr ''E'') (JStr '''') None (JArr []) [example_dataset, empty_dataset] []
     [] None"

text \<open>A task \<open>H\<close> with the subtask \<open>G\<close>, which has the subtask \<open>F\<close>.\<close>

definition task_F :: task where
  "task_F = Task (JStr ''F'') (JStr '''') (Some (JStr ''G'')) (JArr []) [] [] [] None"

definition task_G :: task where
  "task_G = Task (JStr ''G'') (JStr '''') (Some (JStr ''H'')) (JArr []) [] [task_F] [] None"

definition task_H :: task where
  "task_H = Task (JStr ''H'') (JStr '''') None (JArr []) [] [task_G] [] None"

text \<open>Dataset records with citations, and the datasets built from them.\<close>

definition citing_record :: json where
  "citing_record = JObj [(''dataset'', JStr ''X''), (''dataset_citations'', JArr [JObj []])]"

definition cited_record :: json where
  "cited_record = JObj
     [(''dataset'', JStr ''X''),
      (''dataset_links'', JArr [JObj [(''title'', JStr ''home''), (''url'', JStr ''u1'')]]),
      (''dataset_citations'', JArr [JNull, JObj [(''title'', JStr ''paper'')], JObj []])]"

definition cited_dataset :: dataset where
  "cited_dataset = Dataset (JStr ''X'') (JStr '''') None (JArr []) [] []
     [Link (JStr ''home'') (JStr ''u1''), Link (JStr ''paper'') (JStr '''')] []"

text \<open>Task records, and the tasks built from them.\<close>

definition linked_record :: json where
  "linked_record = JObj
     [(''task'', JStr ''Parsing''),
      (''source_link'', JObj [(''title'', JStr ''Paper'')])]"

definition linked_task :: task where
  "linked_task = Task (JStr ''Parsing'') (JStr '''') None (JArr []) [] [] []
     (Some (Link (JStr ''Paper'') (JStr '''')))"

definition titled_record :: json where
  "titled_record = JObj
     [(''task'', JStr ''Tagging''),
      (''categories'', JArr [JStr ''NLP'']),
      (''synonyms'', JArr [JStr ''POS'']),
      (''source_link'', JObj [(''title'', JStr ''Wiki''), (''url'', JStr ''u2'')])]"

definition titled_task :: task where
  "titled_task = Task (JStr ''Tagging'') (JStr '''') None (JArr [JStr ''NLP'']) [] [] []
     (Some (Link (JStr ''Wiki'') (JStr ''u2'')))"

definition plain_record :: json where
  "plain_record = JObj [(''task'', JStr ''Tagging''), (''description'', JStr ''words'')]"

definition plain_task :: task where
  "plain_task = Task (JStr ''Tagging'') (JStr ''words'') None (JArr []) [] [] [] None"

section \<open>Facts about reading records\<close>

lemma field_or_absent: "map_of kvs k = None \<Longrightarrow> field_or (JObj kvs) k dflt = Inr dflt"
  by (simp add: field_or_def)

lemma opt_items_absent: "map_of kvs k = None \<Longrightarrow> opt_items (JObj kvs) k = Inr []"
  by (simp add: opt_items_def)

lemma links_of_absent: "map_of kvs k = None \<Longrightarrow> links_of (JObj kvs) k = Inr []"
  by (simp add: links_of_def opt_items_absent)

section \<open>Construction of a SotaRow\<close>

text \<open>
  Claim C1, as stated, at a record that holds \<open>model_name\<close> and nothing else: the claim
  says that construction succeeds with every other field at its default. The last
  statement of \<open>SotaRow.__init__\<close> reads \<open>d["metrics"]\<close> without a test, so construction
  raises \<open>KeyError\<close> for \<open>metrics\<close>.
\<close>

theorem sota_row_only_model_name_fails:
  "mk_sota_row (JObj [(''model_name'', JStr ''BERT'')]) = Inl (KeyError ''metrics'')"
  by (simp add: mk_sota_row_def field_or_def links_of_def opt_items_def)

text \<open>
  Claim C1, amended: construction from a record without \<open>model_name\<close> fails with a
  missing-key error for \<open>model_name\<close>; construction from a record that holds only
  \<open>model_name\<close> fails too, with a missing-key error for \<open>metrics\<close>; construction from a
  record that holds exactly \<open>model_name\<close> and \<open>metrics\<close> succeeds, with \<open>metrics\<close> as given
  and every other field at its default (\<open>paper_title\<close> and \<open>paper_url\<close> the empty string,
  \<open>paper_date\<close> none, \<open>code_links\<close> and \<open>model_links\<close> empty).
\<close>

theorem sota_row_required_fields:
  "(map_of kvs ''model_name'' = None \<longrightarrow>
      mk_sota_row (JObj kvs) = Inl (KeyError ''model_name''))
   \<and> (map_of kvs ''model_name'' = Some m \<and> fst ` set kvs = {''model_name''} \<longrightarrow>
      mk_sota_row (JObj kvs) = Inl (KeyError ''metrics''))
   \<and> (map_of kvs ''model_name'' = Some m \<and> map_of kvs ''metrics'' = Some ms
        \<and> fst ` set kvs = {''model_name'', ''metrics''} \<longrightarrow>
      mk_sota_row (JObj kvs) = Inr (SotaRow m (JStr '''') (JStr '''') JNull [] [] ms))"
proof (intro conjI impI)
  assume "map_of kvs ''model_name'' = None"
  then show "mk_sota_row (JObj kvs) = Inl (KeyError ''model_name'')"
    by (simp add: mk_sota_row_def)
next
  assume a: "map_of kvs ''model_name'' = Some m \<and> fst ` set kvs = {''model_name''}"
  then have "map_of kvs k = None" if "k \<noteq> ''model_name''" for k
    using that by (simp add: map_of_eq_None_iff)
  with a show "mk_sota_row (JObj kvs) = Inl (KeyError ''metrics'')"
    by (simp add: mk_sota_row_def field_or_absent links_of_absent)
next
  assume a: "map_of kvs ''model_name'' = Some m \<and> map_of kvs ''metrics'' = Some ms
        \<and> fst ` set kvs = {''model_name'', ''metrics''}"
  then have "map_of kvs k = None" if "k \<noteq> ''model_name''" "k \<noteq> ''metrics''" for k
    using that by (simp add: map_of_eq_None_iff)
  with a show "mk_sota_row (JObj kvs)
      = Inr (SotaRow m (JStr '''') (JStr '''') JNull [] [] ms)"
    by (simp add: mk_sota_row_def field_or_absent links_of_absent)
qed

theorem sota_row_required_fields_witness:
  "mk_sota_row (JObj [(''paper_title'', JStr ''A paper'')]) = Inl (KeyError ''model_name'')
   \<and> mk_sota_row (JObj [(''model_name'', JStr ''ResNet'')]) = Inl (KeyError ''metrics'')
   \<and> mk_sota_row (JObj [(''model_name'', JStr ''ResNet''),
         (''metrics'', JObj [(''Accuracy'', JStr ''93.1'')])])
       = Inr (SotaRow (JStr ''ResNet'') (JStr '''') (JStr '''') JNull [] []
               (JObj [(''Accuracy'', JStr ''93.1'')]))"
  using sota_row_required_fields [of "[(''paper_title'', JStr ''A paper'')]"]
    sota_row_required_fields [of "[(''model_name'', JStr ''ResNet'')]" "JStr ''ResNet''"]
    sota_row_required_fields
      [of "[(''model_name'', JStr ''ResNet''),
            (''metrics'', JObj [(''Accuracy'', JStr ''93.1'')])]"
          "JStr ''ResNet''" "JObj [(''Accuracy'', JStr ''93.1'')]"]
  by simp

section \<open>Discovery of tasks with SOTA tables\<close>

lemma fold_flag: "fold (\<lambda>x a. if P x then True else a) xs a = (a \<or> (\<exists>x \<in> set xs. P x))"
  by (induction xs arbitrary: a) auto

lemma scan_sota_eq: "scan_sota d add = (add \<or> dataset_has_sota d)"
  by (auto simp: scan_sota_def dataset_has_sota_def fold_flag)

lemma fold_scan_sota: "fold scan_sota ds add = (add \<or> (\<exists>d \<in> set ds. dataset_has_sota d))"
  by (induction ds arbitrary: add) (auto simp: scan_sota_eq)

lemma fold_append_out:
  "(\<And>x out. x \<in> set xs \<Longrightarrow> f x out = out @ g x) \<Longrightarrow> fold f xs out = out @ concat (map g xs)"
  by (induction xs arbitrary: out) auto

lemma preorder_sel: "preorder t = t # concat (map preorder (t_subtasks t))"
  by (cases t) simp

text \<open>
  \<open>find_sota_tasks\<close> appends to \<open>out\<close> the qualifying tasks of the subtree, in pre-order.
\<close>

lemma find_sota_tasks_eq: "find_sota_tasks t out = out @ filter task_has_sota (preorder t)"
proof (induction t out rule: find_sota_tasks.induct)
  case (1 name description parent categories datasets subtasks synonyms source_link out)
  let ?t = "Task name description parent categories datasets subtasks synonyms source_link"
  have "fold find_sota_tasks subtasks acc
      = acc @ concat (map (\<lambda>s. filter task_has_sota (preorder s)) subtasks)" for acc
    by (rule fold_append_out) (rule "1.IH")
  moreover have "task_has_sota ?t = (\<exists>d \<in> set datasets. dataset_has_sota d)"
    by (simp add: task_has_sota_def)
  ultimately show ?case
    by (simp add: fold_scan_sota filter_concat comp_def)
qed

text \<open>
  Claim C5: for every registry, \<open>tasks_with_sota\<close> returns exactly the tasks, top-level or
  descendant at any depth, that own a dataset whose own rows or whose direct subdatasets'
  rows are non-empty; the top-level tasks come in registry order, each followed by its
  descendants in pre-order.
\<close>

theorem tasks_with_sota_preorder:
  "tasks_with_sota tasks = filter task_has_sota (concat (map (\<lambda>kv. preorder (snd kv)) tasks))"
proof -
  have "fold find_sota_tasks ts []
      = [] @ concat (map (\<lambda>t. filter task_has_sota (preorder t)) ts)" for ts
    by (rule fold_append_out) (rule find_sota_tasks_eq)
  then show ?thesis
    by (simp add: tasks_with_sota_def filter_concat comp_def)
qed

theorem tasks_with_sota_preorder_witness:
  "tasks_with_sota [(''E'', task_E), (''C'', task_C)] = [task_E, task_D]
   \<and> filter task_has_sota (concat (map (\<lambda>kv. preorder (snd kv))
         [(''E'', task_E), (''C'', task_C)])) = [task_E, task_D]"
  using tasks_with_sota_preorder [of "[(''E'', task_E), (''C'', task_C)]"]
  by (simp add: task_has_sota_def dataset_has_sota_def task_E_def task_C_def task_D_def
      example_dataset_def empty_dataset_def example_row_def)

text \<open>
  Claim C4, as stated, on the registry of the scenario: the claim says that the result is
  \<open>[B, C, D]\<close>. Task \<open>C\<close> owns no dataset (the dataset with the row belongs to its subtask
  \<open>D\<close>), so the flag of \<open>find_sota_tasks\<close> stays \<open>False\<close> for \<open>C\<close> and \<open>C\<close> is not emitted.
\<close>

theorem scenario_result_is_not_BCD:
  "tasks_with_sota scenario_db \<noteq> [task_B, task_C, task_D]"
  by (simp add: tasks_with_sota_def scenario_db_def task_A_def task_B_def task_C_def task_D_def
      scan_sota_def example_dataset_def example_row_def)

text \<open>
  Claim C4, amended: on a registry that holds task \<open>A\<close> with no datasets, task \<open>B\<close> with
  one dataset holding one row, and task \<open>C\<close> with no datasets of its own whose subtask \<open>D\<close>
  holds a dataset with a row, \<open>tasks_with_sota\<close> returns exactly \<open>[B, D]\<close>: it excludes \<open>A\<close>
  and \<open>C\<close>.
\<close>

theorem scenario_result_is_BD:
  assumes "t_datasets A = []" and "t_subtasks A = []"
    and "t_datasets B = [dB]" and "ds_sota_rows dB = [r]" and "t_subtasks B = []"
    and "t_datasets C = []" and "t_subtasks C = [D]"
    and "t_datasets D = [dD]" and "ds_sota_rows dD = [r']" and "t_subtasks D = []"
  shows "tasks_with_sota [(a, A), (b, B), (c, C)] = [B, D]"
proof -
  have "\<not> task_has_sota A" "task_has_sota B" "\<not> task_has_sota C" "task_has_sota D"
    using assms by (simp_all add: task_has_sota_def dataset_has_sota_def)
  moreover have "preorder A = [A]" "preorder B = [B]" "preorder C = [C, D]"
    using assms by (simp_all add: preorder_sel [of A] preorder_sel [of B]
        preorder_sel [of C] preorder_sel [of D])
  ultimately show ?thesis
    by (simp add: tasks_with_sota_def find_sota_tasks_eq)
qed

theorem scenario_result_is_BD_witness:
  "tasks_with_sota scenario_db = [task_B, task_D]"
  unfolding scenario_db_def
  by (rule scenario_result_is_BD [where dB = example_dataset and dD = example_dataset
        and r = example_row and r' = example_row])
    (simp_all add: task_A_def task_B_def task_C_def task_D_def example_dataset_def)

section \<open>Discovery of datasets with SOTA tables\<close>

text \<open>
  Claim C2 says that \<open>datasets_with_sota\<close> appends a dataset if and only if that dataset
  passes the per-dataset check. On a registry with the one task \<open>E\<close>, whose first dataset
  has a row and whose second dataset has neither rows nor subdatasets, the code returns
  both datasets: the flag \<open>add\<close> is not reset between the datasets of a task.
\<close>

theorem datasets_with_sota_keeps_flag:
  "datasets_with_sota [(''E'', task_E)] = [example_dataset, empty_dataset]
   \<and> ds_sota_rows empty_dataset = [] \<and> ds_subdatasets empty_dataset = []"
  by (simp add: datasets_with_sota_def task_E_def dataset_step_def scan_sota_def
      example_dataset_def empty_dataset_def example_row_def)

section \<open>Lookup by name\<close>

lemma find_subtask_eq: "find_subtask sts name = find (\<lambda>s. t_task s = JStr name) sts"
  by (induction sts) auto

lemma find_append_case:
  "find P (xs @ ys) = (case find P xs of None \<Rightarrow> find P ys | Some x \<Rightarrow> Some x)"
  by (induction xs) auto

lemma scan_tasks_eq:
  "scan_tasks ts name = find (\<lambda>s. t_task s = JStr name) (concat (map t_subtasks ts))"
  by (induction ts) (auto simp: find_subtask_eq find_append_case split: option.splits)

lemma get_task_miss:
  "map_of tasks name = None \<Longrightarrow>
   get_task tasks name = find (\<lambda>s. t_task s = JStr name) (direct_subtasks tasks)"
  by (simp add: get_task_def scan_tasks_eq direct_subtasks_def comp_def)

lemma get_task_None_iff:
  "get_task tasks name = None \<longleftrightarrow>
     name \<notin> fst ` set tasks \<and> JStr name \<notin> t_task ` set (direct_subtasks tasks)"
proof (cases "map_of tasks name")
  case None
  then show ?thesis
    by (force simp: get_task_miss find_None_iff map_of_eq_None_iff)
next
  case (Some t)
  then have "name \<in> fst ` set tasks"
    by (metis map_of_eq_None_iff option.distinct(1))
  with Some show ?thesis by (simp add: get_task_def)
qed

text \<open>
  Claim C9: for every registry and name, \<open>get_task\<close> returns the top-level task registered
  under the name when there is one; otherwise the first direct subtask of a top-level task
  whose \<open>task\<close> field is the name; and none exactly when the name is neither a top-level
  name nor the name of a direct subtask, whatever occurs two or more levels down.
\<close>

theorem get_task_lookup:
  "(map_of tasks name = Some t \<longrightarrow> get_task tasks name = Some t)
   \<and> (map_of tasks name = None \<longrightarrow>
        get_task tasks name = find (\<lambda>s. t_task s = JStr name) (direct_subtasks tasks))
   \<and> (get_task tasks name = None \<longleftrightarrow>
        name \<notin> fst ` set tasks \<and> JStr name \<notin> t_task ` set (direct_subtasks tasks))"
  using get_task_miss [of tasks name] get_task_None_iff [of tasks name]
  by (simp add: get_task_def)

theorem get_task_lookup_witness:
  "get_task [(''A'', task_A), (''H'', task_H)] ''H'' = Some task_H
   \<and> get_task [(''A'', task_A), (''H'', task_H)] ''G'' = Some task_G
   \<and> get_task [(''A'', task_A), (''H'', task_H)] ''F'' = None
   \<and> get_task [(''A'', task_A), (''H'', task_H)] ''Z'' = None"
  using get_task_lookup [of "[(''A'', task_A), (''H'', task_H)]" "''H''" task_H]
    get_task_lookup [of "[(''A'', task_A), (''H'', task_H)]" "''G''"]
    get_task_lookup [of "[(''A'', task_A), (''H'', task_H)]" "''F''"]
    get_task_lookup [of "[(''A'', task_A), (''H'', task_H)]" "''Z''"]
  by (simp add: direct_subtasks_def task_A_def task_H_def task_G_def task_F_def)

section \<open>Loading synonyms\<close>

lemma t_task_append_synonym [simp]: "t_task (append_synonym s t) = t_task t"
  by (cases t) simp

lemma t_subtasks_append_synonym [simp]: "t_subtasks (append_synonym s t) = t_subtasks t"
  by (cases t) simp

lemma t_subtasks_set_subtasks [simp]: "t_subtasks (set_subtasks sts t) = sts"
  by (cases t) simp

text \<open>Appending a synonym changes neither the names of the registry nor those of the
  direct subtasks, so it changes no later lookup from a hit to a miss or back.\<close>

lemma update_subtask_names:
  "update_subtask name (append_synonym s) sts = Some sts' \<Longrightarrow> map t_task sts' = map t_task sts"
  by (induction sts arbitrary: sts') (auto split: if_splits option.splits)

lemma update_scan_keys: "map fst (update_scan name f tasks) = map fst tasks"
  by (induction tasks) (auto split: option.splits)

lemma update_scan_names:
  "map t_task (direct_subtasks (update_scan name (append_synonym s) tasks))
     = map t_task (direct_subtasks tasks)"
  by (induction tasks) (auto simp: direct_subtasks_def split: option.splits
      dest: update_subtask_names)

lemma map_entry_keys: "map fst (AList.map_entry name f tasks) = map fst tasks"
  by (induction tasks) auto

lemma map_entry_names:
  "map t_task (direct_subtasks (AList.map_entry name (append_synonym s) tasks))
     = map t_task (direct_subtasks tasks)"
  by (induction tasks) (auto simp: direct_subtasks_def)

lemma update_task_keys: "map fst (update_task name f tasks) = map fst tasks"
  by (simp add: update_task_def map_entry_keys update_scan_keys)

lemma update_task_names:
  "map t_task (direct_subtasks (update_task name (append_synonym s) tasks))
     = map t_task (direct_subtasks tasks)"
  by (simp add: update_task_def map_entry_names update_scan_names)

lemma get_task_None_shape:
  "get_task tasks n = None \<longleftrightarrow>
     n \<notin> set (map fst tasks) \<and> JStr n \<notin> set (map t_task (direct_subtasks tasks))"
  by (simp add: get_task_None_iff)

lemma load_row_resolvable:
  "load_row tasks row = Inr tasks' \<Longrightarrow> (get_task tasks' n = None) = (get_task tasks n = None)"
  by (cases row)
    (auto simp only: load_row.simps get_task_None_shape update_task_keys update_task_names
      split: option.splits list.splits)

lemma load_row_error: "load_row tasks row = Inl e \<Longrightarrow> e = IndexError"
  by (cases row) (auto split: option.splits list.splits)

lemma load_rows_resolvable:
  "load_rows tasks rows = Inr tasks' \<Longrightarrow> (get_task tasks' n = None) = (get_task tasks n = None)"
  by (induction rows arbitrary: tasks) (auto split: sum.splits dest: load_row_resolvable)

lemma load_rows_error: "load_rows tasks rows = Inl e \<Longrightarrow> e = IndexError"
  by (induction rows arbitrary: tasks) (auto split: sum.splits dest: load_row_error)

lemma load_row_short: "short_row tasks row \<Longrightarrow> load_row tasks row = Inl IndexError"
  by (auto simp: short_row_def split: list.splits option.splits)

lemma short_row_step:
  "load_row tasks r = Inr tasks' \<Longrightarrow> short_row tasks' row = short_row tasks row"
  using load_row_resolvable [of tasks r tasks']
  by (simp add: short_row_def split: list.splits)

lemma short_rows_step:
  "load_rows tasks rs = Inr tasks' \<Longrightarrow> short_row tasks' row = short_row tasks row"
  using load_rows_resolvable [of tasks rs tasks']
  by (simp add: short_row_def split: list.splits)

lemma load_rows_short:
  "row \<in> set rows \<Longrightarrow> short_row tasks row \<Longrightarrow> load_rows tasks rows = Inl IndexError"
proof (induction rows arbitrary: tasks)
  case Nil
  then show ?case by simp
next
  case (Cons r rows)
  show ?case
  proof (cases "load_row tasks r")
    case (Inl e)
    then show ?thesis by (simp add: load_row_error [OF Inl])
  next
    case (Inr tasks')
    with Cons.prems have "row \<noteq> r"
      by (auto dest: load_row_short)
    with Cons.prems have "row \<in> set rows" by simp
    moreover from Cons.prems Inr have "short_row tasks' row"
      by (simp add: short_row_step)
    ultimately show ?thesis using Inr Cons.IH by simp
  qed
qed

text \<open>
  Claim C10: \<open>load_synonyms\<close> reads the first and the second field of each row without a
  test. Whenever some row of some file is empty, or has one field that names a task
  \<open>get_task\<close> finds, \<open>load_synonyms\<close> raises an \<open>IndexError\<close> instead of skipping the row.
\<close>

theorem load_synonyms_short_row:
  assumes "csv_file \<in> set csv_files" and "row \<in> set csv_file"
    and "row = [] \<or> (\<exists>name. row = [name] \<and> get_task tasks name \<noteq> None)"
  shows "load_synonyms tasks csv_files = Inl IndexError"
proof -
  from assms(3) have short: "short_row tasks row"
    by (auto simp: short_row_def)
  from assms(1) short show ?thesis
  proof (induction csv_files arbitrary: tasks)
    case Nil
    then show ?case by simp
  next
    case (Cons f fs)
    show ?case
    proof (cases "load_rows tasks f")
      case (Inl e)
      then show ?thesis by (simp add: load_rows_error [OF Inl])
    next
      case (Inr tasks')
      with Cons.prems assms(2) have "csv_file \<noteq> f"
        by (auto dest: load_rows_short)
      with Cons.prems have "csv_file \<in> set fs" by simp
      moreover from Cons.prems Inr have "short_row tasks' row"
        by (simp add: short_rows_step)
      ultimately show ?thesis using Inr Cons.IH by simp
    qed
  qed
qed

theorem load_synonyms_short_row_witness:
  "load_synonyms [(''H'', task_H)] [[[''H'', ''Hierarchy'']], [[''Z''], [''G'']]]
     = Inl IndexError
   \<and> load_synonyms [(''H'', task_H)] [[[''H'', ''Hierarchy''], []]] = Inl IndexError"
proof -
  have g: "get_task [(''H'', task_H)] ''G'' \<noteq> None"
    by (simp add: get_task_def task_H_def task_G_def)
  have "load_synonyms [(''H'', task_H)] [[[''H'', ''Hierarchy'']], [[''Z''], [''G'']]]
      = Inl IndexError"
    by (rule load_synonyms_short_row [where csv_file = "[[''Z''], [''G'']]" and row = "[''G'']"])
      (use g in simp_all)
  moreover have "load_synonyms [(''H'', task_H)] [[[''H'', ''Hierarchy''], []]]
      = Inl IndexError"
    by (rule load_synonyms_short_row [where csv_file = "[[''H'', ''Hierarchy''], []]"
          and row = "[]"]) simp_all
  ultimately show ?thesis by simp
qed

section \<open>Precision and recall\<close>

text \<open>
  Claim C3 says that no division by zero is raised, whatever the sizes of \<open>tp\<close>, \<open>fn\<close> and
  \<open>fp\<close>. With \<open>tp\<close> and \<open>fn\<close> empty the guard of the recall itself divides by
  \<open>len(tp) + len(fn)\<close>, which is zero, and raises \<open>ZeroDivisionError\<close>, whatever the size of
  \<open>fp\<close>.
\<close>

theorem recall_guard_divides_by_zero:
  "precision_recall 0 0 fp = Inl ZeroDivisionError"
  by (simp add: precision_recall_def py_truediv_def)

section \<open>Serialization of a dataset\<close>

text \<open>
  Claim C7: for every dataset, \<open>to_dict\<close> has no \<open>sota\<close> key when \<open>sota_metrics\<close> is empty
  (falsy), whatever \<open>sota_rows\<close> holds; when \<open>sota_metrics\<close> is non-empty (truthy) the
  \<open>sota\<close> block is emitted with the metrics and the serialized rows.
\<close>

theorem dataset_to_dict_sota_block:
  "(\<not> truthy (ds_sota_metrics d) \<longrightarrow> py_in ''sota'' (dataset_to_dict d) = Inr False)
   \<and> (truthy (ds_sota_metrics d) \<longrightarrow>
        py_get (dataset_to_dict d) ''sota''
          = Inr (JObj [(''metrics'', ds_sota_metrics d),
                       (''rows'', JArr (map sota_row_to_dict (ds_sota_rows d)))]))"
  by (cases d) simp

theorem dataset_to_dict_sota_block_witness:
  "ds_sota_metrics rows_without_metrics = JArr []
   \<and> ds_sota_rows rows_without_metrics \<noteq> []
   \<and> py_in ''sota'' (dataset_to_dict rows_without_metrics) = Inr False
   \<and> py_get (dataset_to_dict example_dataset) ''sota''
       = Inr (JObj [(''metrics'', JArr [JStr ''Accuracy'']),
                    (''rows'', JArr [sota_row_to_dict example_row])])"
  using dataset_to_dict_sota_block [of rows_without_metrics]
    dataset_to_dict_sota_block [of example_dataset]
  by (simp add: rows_without_metrics_def example_dataset_def)

section \<open>Citations of a dataset\<close>

text \<open>
  Claim C8, as stated, at a dataset record whose \<open>dataset_citations\<close> holds the one entry
  \<open>{}\<close>: the claim says that every non-null citation entry is appended to
  \<open>dataset_links\<close>. The loop tests \<open>if link_d\<close>, so the empty record, which is not null, is
  skipped and \<open>dataset_links\<close> stays empty.
\<close>

theorem empty_citation_is_skipped:
  "py_get citing_record ''dataset_citations'' = Inr (JArr [JObj []])
   \<and> mk_dataset None citing_record
       = Inr (Dataset (JStr ''X'') (JStr '''') None (JArr []) [] [] [] [])"
  by (simp add: citing_record_def mk_dataset.simps field_or_def sota_of_def opt_items_def
      links_of_def)

text \<open>
  Claim C8, amended: for every dataset record that holds a \<open>dataset_citations\<close> sequence
  and from which a dataset is built, construction appends a link for each truthy citation
  entry (neither null nor empty) to the internal \<open>dataset_links\<close>, after the links from
  \<open>dataset_links\<close>, and leaves the stored \<open>dataset_citations\<close> empty; \<open>to_dict\<close> then emits
  \<open>dataset_links\<close> with all these links and \<open>dataset_citations\<close> as the empty sequence,
  under separate keys.
\<close>

theorem citations_merged_into_links:
  assumes "mk_dataset parent d = Inr ds"
    and "py_get d ''dataset_citations'' = Inr (JArr entries)"
  shows "\<exists>links citations.
           links_of d ''dataset_links'' = Inr links
         \<and> map_err mk_link (filter truthy entries) = Inr citations
         \<and> ds_dataset_links ds = links @ citations
         \<and> ds_dataset_citations ds = []
         \<and> py_get (dataset_to_dict ds) ''dataset_links''
             = Inr (JArr (map link_to_dict (links @ citations)))
         \<and> py_get (dataset_to_dict ds) ''dataset_citations'' = Inr (JArr [])"
proof -
  from assms(2) obtain kvs where d: "d = JObj kvs"
    and cit: "map_of kvs ''dataset_citations'' = Some (JArr entries)"
    by (cases d) (auto split: option.splits)
  from cit have lc: "links_of d ''dataset_citations'' = map_err mk_link (filter truthy entries)"
    by (simp add: d links_of_def opt_items_def)
  from assms(1) obtain name description sota subdatasets links citations where
    l: "links_of d ''dataset_links'' = Inr links"
    and c: "links_of d ''dataset_citations'' = Inr citations"
    and ds: "ds = Dataset name description parent (fst sota) (snd sota) subdatasets
                    (links @ citations) []"
    by (subst (asm) mk_dataset.simps) (auto split: sum.splits)
  from l c lc ds show ?thesis by simp
qed

theorem citations_merged_into_links_witness:
  "mk_dataset None cited_record = Inr cited_dataset
   \<and> ds_dataset_links cited_dataset
       = [Link (JStr ''home'') (JStr ''u1''), Link (JStr ''paper'') (JStr '''')]
   \<and> ds_dataset_citations cited_dataset = []
   \<and> py_get (dataset_to_dict cited_dataset) ''dataset_citations'' = Inr (JArr [])"
proof -
  have mk: "mk_dataset None cited_record = Inr cited_dataset"
    by (simp add: cited_record_def cited_dataset_def mk_dataset.simps field_or_def sota_of_def
        opt_items_def links_of_def mk_link_def)
  have cit: "py_get cited_record ''dataset_citations''
      = Inr (JArr [JNull, JObj [(''title'', JStr ''paper'')], JObj []])"
    by (simp add: cited_record_def)
  from citations_merged_into_links [OF mk cit] mk show ?thesis
    by (auto simp: cited_dataset_def)
qed

section \<open>Round trip of a task record\<close>

lemma field_or_get_or: "field_or (JObj kvs) k dflt = Inr (get_or kvs k dflt)"
  by (simp add: field_or_def get_or_def split: option.splits)

lemma mk_link_obj:
  "mk_link (JObj sl) = Inr (Link (get_or sl ''title'' (JStr '''')) (get_or sl ''url'' (JStr '''')))"
  by (simp add: mk_link_def field_or_get_or)

lemma source_link_of_absent:
  "map_of kvs ''source_link'' = None \<Longrightarrow> source_link_of (JObj kvs) = Inr None"
  by (simp add: source_link_of_def)

lemma source_link_of_obj:
  "map_of kvs ''source_link'' = Some (JObj sl) \<Longrightarrow>
   source_link_of (JObj kvs)
     = Inr (Some (Link (get_or sl ''title'' (JStr '''')) (get_or sl ''url'' (JStr ''''))))"
  by (simp add: source_link_of_def mk_link_obj)

text \<open>
  Claim C6, as stated, at a task record whose \<open>source_link\<close> is the record
  \<open>{"title": "Paper"}\<close>: the claim says that \<open>to_dict\<close> yields a \<open>source_link\<close> equal to the
  input's. \<open>Link.__init__\<close> fills the missing \<open>url\<close> with the empty string, so the output is
  \<open>{"title": "Paper", "url": ""}\<close>.
\<close>

theorem source_link_gains_url:
  "mk_task None linked_record = Inr linked_task
   \<and> py_get linked_record ''source_link'' = Inr (JObj [(''title'', JStr ''Paper'')])
   \<and> py_get (task_to_dict linked_task) ''source_link''
       = Inr (JObj [(''title'', JStr ''Paper''), (''url'', JStr '''')])"
  by (simp add: linked_record_def linked_task_def mk_task.simps field_or_def opt_items_def
      source_link_of_def mk_link_def link_to_dict_def)

text \<open>
  Claim C6, amended: for every task record from which a task is built, \<open>to_dict\<close> yields
  back the record's \<open>task\<close>, its \<open>description\<close> (the empty string when absent) and its
  \<open>categories\<close> (the empty sequence when absent) exactly, yields \<open>synonyms\<close> as the empty
  sequence, and yields \<open>source_link\<close> as none when the key is absent and, when the key
  holds a record, as the record of that record's \<open>title\<close> and \<open>url\<close>, each the empty string
  when absent.
\<close>

theorem task_to_dict_restores:
  assumes "mk_task parent (JObj kvs) = Inr t"
  shows "py_get (task_to_dict t) ''task'' = py_get (JObj kvs) ''task''
    \<and> py_get (task_to_dict t) ''description'' = Inr (get_or kvs ''description'' (JStr ''''))
    \<and> py_get (task_to_dict t) ''categories'' = Inr (get_or kvs ''categories'' (JArr []))
    \<and> py_get (task_to_dict t) ''synonyms'' = Inr (JArr [])
    \<and> (map_of kvs ''source_link'' = None \<longrightarrow>
          py_get (task_to_dict t) ''source_link'' = Inr JNull)
    \<and> (\<forall>sl. map_of kvs ''source_link'' = Some (JObj sl) \<longrightarrow>
          py_get (task_to_dict t) ''source_link''
            = Inr (JObj [(''title'', get_or sl ''title'' (JStr '''')),
                         (''url'', get_or sl ''url'' (JStr ''''))]))"
proof -
  from assms obtain name datasets subtasks source_link where
    name: "py_get (JObj kvs) ''task'' = Inr name"
    and sl: "source_link_of (JObj kvs) = Inr source_link"
    and t: "t = Task name (get_or kvs ''description'' (JStr ''''))
                  parent (get_or kvs ''categories'' (JArr [])) datasets subtasks []
                  source_link"
    by (subst (asm) mk_task.simps) (auto simp: field_or_get_or split: sum.splits)
  have "py_get (task_to_dict t) ''source_link'' = Inr JNull"
    if "map_of kvs ''source_link'' = None"
    using sl t source_link_of_absent [OF that] by simp
  moreover have "py_get (task_to_dict t) ''source_link''
            = Inr (JObj [(''title'', get_or l ''title'' (JStr '''')),
                         (''url'', get_or l ''url'' (JStr ''''))])"
    if "map_of kvs ''source_link'' = Some (JObj l)" for l
    using sl t source_link_of_obj [OF that] by (auto simp: link_to_dict_def)
  ultimately show ?thesis
    using name t by simp
qed

theorem task_to_dict_restores_witness:
  "mk_task None titled_record = Inr titled_task
   \<and> py_get (task_to_dict titled_task) ''task'' = Inr (JStr ''Tagging'')
   \<and> py_get (task_to_dict titled_task) ''description'' = Inr (JStr '''')
   \<and> py_get (task_to_dict titled_task) ''categories'' = Inr (JArr [JStr ''NLP''])
   \<and> py_get (task_to_dict titled_task) ''synonyms'' = Inr (JArr [])
   \<and> py_get (task_to_dict titled_task) ''source_link''
       = Inr (JObj [(''title'', JStr ''Wiki''), (''url'', JStr ''u2'')])
   \<and> mk_task None plain_record = Inr plain_task
   \<and> py_get (task_to_dict plain_task) ''description'' = Inr (JStr ''words'')
   \<and> py_get (task_to_dict plain_task) ''source_link'' = Inr JNull"
proof -
  have a: "mk_task None (JObj
     [(''task'', JStr ''Tagging''),
      (''categories'', JArr [JStr ''NLP'']),
      (''synonyms'', JArr [JStr ''POS'']),
      (''source_link'', JObj [(''title'', JStr ''Wiki''), (''url'', JStr ''u2'')])])
      = Inr titled_task"
    by (simp add: titled_task_def mk_task.simps field_or_def opt_items_def
        source_link_of_def mk_link_def)
  have b: "mk_task None (JObj [(''task'', JStr ''Tagging''), (''description'', JStr ''words'')])
      = Inr plain_task"
    by (simp add: plain_task_def mk_task.simps field_or_def opt_items_def
        source_link_of_def mk_link_def)
  from task_to_dict_restores [OF a] task_to_dict_restores [OF b] a b show ?thesis
    by (simp add: titled_record_def plain_record_def get_or_def)
qed

end
